theory Spec2Isabelle
  imports Main "HOL-Library.Product_Lexorder"
begin

section \<open>The Raft node of src/raft/node.cpp\<close>

text \<open>
  A shallow embedding of \<^verbatim>\<open>NodeImpl\<close>. Every member function that the properties below
  read is a HOL function from the node before the call to the node after it. The node mutex
  makes each member function atomic, so one call is one state transition.

  Conventions.
  \<^item> \<^verbatim>\<open>int64_t\<close> values (terms, log indices, timestamps) are \<open>int\<close>. Where node.cpp adds
    one to such a value or subtracts one from it, the model computes \<open>add64\<close>, which wraps
    at 64 bits as the compiled code does (signed overflow is undefined in C++).
    Comparisons are those of \<open>int\<close>.
  \<^item> A failed \<^verbatim>\<open>CHECK\<close> aborts the process, and so does a call through a \<^verbatim>\<open>NULL\<close>
    pointer: functions that contain one return \<open>error + result\<close>, with \<open>Inl\<close> for the
    abort.
  \<^item> Out-parameters (\<^verbatim>\<open>response\<close>, \<^verbatim>\<open>writer\<close>) are passed in and returned.
  \<^item> Logging, the reference count of the node and the four bthread timers are left out:
    no field modelled here is read from or written by them.
  \<^item> \<^verbatim>\<open>base::monotonic_time_ms()\<close> is an argument \<open>now\<close> of the function that calls it.
\<close>

subsection \<open>Identities and configurations\<close>

text \<open>
  Modelled from the spec: \<^verbatim>\<open>PeerId\<close> and \<^verbatim>\<open>Configuration\<close> are declared in raft/raft.h, which
  is not part of src. The spec gives a peer as an endpoint plus a replica tag, and a
  configuration as a peer set with \<open>equal\<close>, \<open>contain\<close>, add and remove. A peer is the
  triple (ip, port, idx), ordered lexicographically as \<^verbatim>\<open>std::set\<close> needs; the empty
  peer, to which \<^verbatim>\<open>reset()\<close> sets a peer, is the all-zero triple.
\<close>

type_synonym PeerId = "nat \<times> int \<times> int"

definition empty_peer :: PeerId where
  "empty_peer = (0, 0, 0)"

definition is_empty :: "PeerId \<Rightarrow> bool" where
  "is_empty p = (p = empty_peer)"

type_synonym Configuration = "PeerId set"

definition Configuration_of :: "PeerId list \<Rightarrow> Configuration" where
  "Configuration_of peers = set peers"

definition conf_empty :: "Configuration \<Rightarrow> bool" where
  "conf_empty c = (c = {})"

definition conf_equal :: "Configuration \<Rightarrow> PeerId list \<Rightarrow> bool" where
  "conf_equal c peers = (set peers = c)"

definition conf_contain :: "Configuration \<Rightarrow> PeerId \<Rightarrow> bool" where
  "conf_contain c p = (p \<in> c)"

definition conf_contain_all :: "Configuration \<Rightarrow> PeerId list \<Rightarrow> bool" where
  "conf_contain_all c peers = (set peers \<subseteq> c)"

definition peer_vector :: "Configuration \<Rightarrow> PeerId list" where
  "peer_vector c = sorted_list_of_set c"

type_synonym ConfigurationPair = "int \<times> Configuration"

text \<open>
  Modelled from the spec: \<^verbatim>\<open>ConfigurationCtx\<close> (raft/node.h, not part of src) is "a snapshot
  of peers taken when a conf-change is in flight, empty otherwise": the list of old peers,
  \<^verbatim>\<open>reset()\<close> being the empty list.
\<close>

type_synonym ConfigurationCtx = "PeerId list"

subsection \<open>Log entries and the collaborators\<close>

text \<open>
  The error codes are those of \<^verbatim>\<open>errno.h\<close> on Linux.
\<close>

definition EPERM :: int where [simp]: "EPERM = 1"
definition EAGAIN :: int where [simp]: "EAGAIN = 11"
definition EINVAL :: int where [simp]: "EINVAL = 22"
definition ESTALE :: int where [simp]: "ESTALE = 116"

text \<open>64-bit signed arithmetic: the sum of two \<^verbatim>\<open>int64_t\<close> values, wrapped.\<close>

definition INT64_MAX :: int where
  "INT64_MAX = 9223372036854775807"

definition INT64_MIN :: int where
  "INT64_MIN = - 9223372036854775808"

definition add64 :: "int \<Rightarrow> int \<Rightarrow> int" where
  "add64 a b = (a + b - INT64_MIN) mod 18446744073709551616 + INT64_MIN"

datatype EntryType =
    ENTRY_TYPE_UNKNOWN
  | ENTRY_TYPE_NO_OP
  | ENTRY_TYPE_DATA
  | ENTRY_TYPE_ADD_PEER
  | ENTRY_TYPE_REMOVE_PEER

type_synonym bytes = "nat list"

text \<open>\<^verbatim>\<open>peers\<close> is a pointer in the source: \<open>None\<close> is \<^verbatim>\<open>NULL\<close>.\<close>

record LogEntry =
  le_index :: int
  le_term :: int
  le_type :: EntryType
  le_peers :: "PeerId list option"
  le_data :: bytes

definition new_LogEntry :: LogEntry where
  "new_LogEntry =
     \<lparr>le_index = 0, le_term = 0, le_type = ENTRY_TYPE_UNKNOWN, le_peers = None, le_data = []\<rparr>"

type_synonym Closure = nat

text \<open>
  Modelled from the spec: \<^verbatim>\<open>LogManager\<close> (raft/log.h, not part of src). The spec's contract
  is \<open>first_log_index\<close>, \<open>last_log_index\<close>, \<open>get_term(index)\<close>, \<open>append_entry\<close>,
  \<open>append_entries(batch)\<close>, \<open>truncate_prefix(first_kept)\<close>, \<open>truncate_suffix(last_kept)\<close>
  and \<open>check_and_set_configuration\<close>, with indices assigned by the log manager. The log
  is the list of the entries at the indices \<open>first_index\<close>, \<open>first_index + 1\<close>, ...; an
  empty log has \<open>last_log_index = first_log_index - 1\<close>. The node takes the result of
  \<open>append_entries\<close> call by call: \<open>storage_replies\<close> lists what the log storage answers
  to the coming calls, in order, and it answers 0 once the list is used up. On a
  non-zero answer nothing is appended.
\<close>

record LogManager =
  first_index :: int
  logs :: "LogEntry list"
  disk_thread :: bool
  storage_replies :: "int list"

definition first_log_index :: "LogManager \<Rightarrow> int" where
  "first_log_index lm = first_index lm"

definition last_log_index :: "LogManager \<Rightarrow> int" where
  "last_log_index lm = first_index lm + int (length (logs lm)) - 1"

definition get_term :: "LogManager \<Rightarrow> int \<Rightarrow> int" where
  "get_term lm i =
     (if first_log_index lm \<le> i \<and> i \<le> last_log_index lm
      then le_term (logs lm ! nat (i - first_index lm)) else 0)"

definition truncate_prefix :: "LogManager \<Rightarrow> int \<Rightarrow> LogManager" where
  "truncate_prefix lm first_index_kept =
     (if first_index_kept \<le> first_index lm then lm
      else lm\<lparr>first_index := first_index_kept,
              logs := drop (nat (first_index_kept - first_index lm)) (logs lm)\<rparr>)"

definition truncate_suffix :: "LogManager \<Rightarrow> int \<Rightarrow> LogManager" where
  "truncate_suffix lm last_index_kept =
     lm\<lparr>logs := take (nat (last_index_kept - first_index lm + 1)) (logs lm)\<rparr>"

fun assign_indices :: "int \<Rightarrow> LogEntry list \<Rightarrow> LogEntry list" where
  "assign_indices i [] = []"
| "assign_indices i (e # es) = e\<lparr>le_index := i\<rparr> # assign_indices (i + 1) es"


definition log_append_entries :: "LogManager \<Rightarrow> LogEntry list \<Rightarrow> int \<times> LogManager" where
  "log_append_entries lm entries =
     (case storage_replies lm of
        [] \<Rightarrow> (0, lm\<lparr>logs := logs lm @ assign_indices (last_log_index lm + 1) entries\<rparr>)
      | r # rs \<Rightarrow>
          if r = 0
          then (0, lm\<lparr>logs := logs lm @ assign_indices (last_log_index lm + 1) entries,
                      storage_replies := rs\<rparr>)
          else (r, lm\<lparr>storage_replies := rs\<rparr>))"

definition log_append_entry :: "LogManager \<Rightarrow> LogEntry \<Rightarrow> LogManager" where
  "log_append_entry lm entry =
     lm\<lparr>logs := logs lm @ [entry\<lparr>le_index := last_log_index lm + 1\<rparr>]\<rparr>"

text \<open>
  Modelled from the spec: \<^verbatim>\<open>ConfigurationManager\<close> (not part of src) answers with "the
  configuration in effect at or before a given log index": the newest configuration
  entry of the log up to that index, and the snapshot's configuration when the log holds
  none. \<open>check_and_set_configuration\<close> "returns true iff the active configuration changed".
\<close>

record ConfigurationManager =
  snapshot_conf :: ConfigurationPair

definition is_conf_entry :: "LogEntry \<Rightarrow> bool" where
  "is_conf_entry e = (le_type e = ENTRY_TYPE_ADD_PEER \<or> le_type e = ENTRY_TYPE_REMOVE_PEER)"

definition entry_conf :: "LogEntry \<Rightarrow> ConfigurationPair" where
  "entry_conf e = (le_index e, (case le_peers e of None \<Rightarrow> {} | Some ps \<Rightarrow> set ps))"

definition get_configuration ::
  "ConfigurationManager \<Rightarrow> LogManager \<Rightarrow> int \<Rightarrow> ConfigurationPair" where
  "get_configuration cm lm i =
     (case rev (filter (\<lambda>e. is_conf_entry e \<and> le_index e \<le> i) (logs lm)) of
        [] \<Rightarrow> (if fst (snapshot_conf cm) \<le> i then snapshot_conf cm else (0, {}))
      | e # _ \<Rightarrow> entry_conf e)"

definition last_configuration :: "ConfigurationManager \<Rightarrow> LogManager \<Rightarrow> ConfigurationPair" where
  "last_configuration cm lm =
     (case rev (filter is_conf_entry (logs lm)) of
        [] \<Rightarrow> snapshot_conf cm
      | e # _ \<Rightarrow> entry_conf e)"

definition set_snapshot ::
  "ConfigurationManager \<Rightarrow> int \<Rightarrow> Configuration \<Rightarrow> ConfigurationManager" where
  "set_snapshot cm i c = cm\<lparr>snapshot_conf := (i, c)\<rparr>"

definition check_and_set_configuration ::
  "ConfigurationManager \<Rightarrow> LogManager \<Rightarrow> ConfigurationPair \<Rightarrow> bool \<times> ConfigurationPair" where
  "check_and_set_configuration cm lm current =
     (let last_conf = last_configuration cm lm
      in if fst current \<noteq> fst last_conf then (True, last_conf) else (False, current))"

text \<open>
  Modelled from the spec: \<^verbatim>\<open>CommitmentManager\<close> (not part of src), with the operations the
  node calls: \<open>reset_pending_index\<close>, \<open>append_pending_application\<close>,
  \<open>clear_pending_applications\<close> and \<open>set_last_committed_index\<close>. The spec says that
  commit-index advancement is observed monotonically, so a smaller index is ignored.
\<close>

record CommitmentManager =
  last_committed_index :: int
  pending_index :: int
  pending_apps :: "(Configuration \<times> Closure) list"

definition reset_pending_index :: "CommitmentManager \<Rightarrow> int \<Rightarrow> CommitmentManager" where
  "reset_pending_index cm i = cm\<lparr>pending_index := i\<rparr>"

definition append_pending_application ::
  "CommitmentManager \<Rightarrow> Configuration \<Rightarrow> Closure \<Rightarrow> CommitmentManager" where
  "append_pending_application cm c done = cm\<lparr>pending_apps := pending_apps cm @ [(c, done)]\<rparr>"

definition clear_pending_applications :: "CommitmentManager \<Rightarrow> CommitmentManager" where
  "clear_pending_applications cm = cm\<lparr>pending_apps := []\<rparr>"

definition set_last_committed_index :: "CommitmentManager \<Rightarrow> int \<Rightarrow> CommitmentManager" where
  "set_last_committed_index cm i =
     (if i > last_committed_index cm then cm\<lparr>last_committed_index := i\<rparr> else cm)"

text \<open>
  Modelled from the spec: the stable storage (not part of src) holds the pair
  (current term, voted for); the state-machine caller (not part of src) is the trace of
  the calls the node makes on it; the replicator group is the set of peers that have a
  replicator; a snapshot writer records an error and answers \<open>save_meta\<close>.
\<close>

record StableStorage =
  stable_term :: int
  stable_votedfor :: PeerId

definition set_term_and_votedfor :: "StableStorage \<Rightarrow> int \<Rightarrow> PeerId \<Rightarrow> StableStorage" where
  "set_term_and_votedfor st t p = st\<lparr>stable_term := t, stable_votedfor := p\<rparr>"

definition set_votedfor :: "StableStorage \<Rightarrow> PeerId \<Rightarrow> StableStorage" where
  "set_votedfor st p = st\<lparr>stable_votedfor := p\<rparr>"

datatype FsmCall =
    on_cleared int Closure int
  | on_leader_stop
  | on_snapshot_load

record SnapshotWriter =
  writer_error :: "(int \<times> string) option"
  copy_result :: int
  save_meta_result :: int

definition writer_set_error :: "SnapshotWriter \<Rightarrow> int \<Rightarrow> string \<Rightarrow> SnapshotWriter" where
  "writer_set_error w code text = w\<lparr>writer_error := Some (code, text)\<rparr>"

record SnapshotMeta =
  last_included_index :: int
  last_included_term :: int
  last_configuration_of :: Configuration

subsection \<open>The node\<close>

datatype State = SHUTDOWN | FOLLOWER | CANDIDATE | LEADER

datatype error = CHECK_failed | NULL_dereference

text \<open>
  \<^verbatim>\<open>_commit_manager\<close> is \<^verbatim>\<open>NULL\<close> from the constructor (node.cpp 42) until \<^verbatim>\<open>init\<close> creates
  it (373); \<open>commit_manager_created\<close> says whether it exists. \<^verbatim>\<open>init\<close> creates it after
  \<^verbatim>\<open>init_snapshot_storage\<close> has run (345) and before it registers the node (386), so the
  RPC handlers and the client calls find it created. The one function below that also
  runs earlier is \<open>on_snapshot_load_done\<close>, which \<^verbatim>\<open>init_snapshot_storage\<close> calls (213).
\<close>

record NodeImpl =
  state :: State
  current_term :: int
  voted_id :: PeerId
  leader_id :: PeerId
  server_id :: PeerId
  conf :: ConfigurationPair
  conf_ctx :: ConfigurationCtx
  last_leader_timestamp :: int
  last_snapshot_index :: int
  last_snapshot_term :: int
  snapshot_saving :: bool
  loading_snapshot_meta :: "SnapshotMeta option"
  snapshot_storage :: bool
  log_manager :: LogManager
  config_manager :: ConfigurationManager
  commit_manager_created :: bool
  commit_manager :: CommitmentManager
  stable_storage :: StableStorage
  fsm_caller :: "FsmCall list"
  replicator_group :: "PeerId set"

text \<open>\<^verbatim>\<open>NodeImpl::last_log_term\<close> (node.cpp 967-976).\<close>

definition last_log_term :: "NodeImpl \<Rightarrow> int" where
  "last_log_term node =
     (let last_log_index = last_log_index (log_manager node)
      in if last_log_index \<ge> first_log_index (log_manager node)
         then get_term (log_manager node) last_log_index
         else last_snapshot_term node)"

text \<open>
  \<^verbatim>\<open>NodeImpl::step_down\<close> (node.cpp 1043-1097). The candidate branch only cancels the
  vote timer. \<^verbatim>\<open>_replicator_group.stop_all()\<close> empties the replicator group.
\<close>

definition step_down :: "NodeImpl \<Rightarrow> int \<Rightarrow> NodeImpl" where
  "step_down node new_term =
     (let node1 =
        (if state node = CANDIDATE then node
         else if state node = LEADER
         then node\<lparr>commit_manager := clear_pending_applications (commit_manager node),
                   log_manager := (log_manager node)\<lparr>disk_thread := False\<rparr>,
                   fsm_caller := fsm_caller node @ [on_leader_stop]\<rparr>
         else node)
      in node1\<lparr>state := FOLLOWER,
               leader_id := empty_peer,
               current_term := new_term,
               voted_id := empty_peer,
               conf_ctx := [],
               stable_storage := set_term_and_votedfor (stable_storage node1) new_term empty_peer,
               replicator_group := {}\<rparr>)"

text \<open>\<^verbatim>\<open>NodeImpl::set_peer\<close> (node.cpp 679-727).\<close>

definition set_peer :: "NodeImpl \<Rightarrow> PeerId list \<Rightarrow> PeerId list \<Rightarrow> int \<times> NodeImpl" where
  "set_peer node old_peers new_peers =
     (if state node = SHUTDOWN then (EINVAL, node)
      else if conf_empty (snd (conf node)) \<and> length old_peers = 0
      then (let new_conf = Configuration_of new_peers
            in (0, step_down (node\<lparr>conf := (fst (conf node), new_conf)\<rparr>) 1))
      else if state node = LEADER \<and> conf_ctx node \<noteq> [] then (EINVAL, node)
      else if \<not> conf_equal (snd (conf node)) old_peers then (EINVAL, node)
      else if length new_peers \<ge> length old_peers div 2 + 1 then (EINVAL, node)
      else if \<not> conf_contain_all (snd (conf node)) new_peers then (EINVAL, node)
      else (let new_conf = Configuration_of new_peers;
                node1 = step_down node (add64 (current_term node) 1)
            in (0, node1\<lparr>conf := (fst (conf node1), new_conf)\<rparr>)))"


text \<open>
  \<^verbatim>\<open>NodeImpl::append(LogEntry*, Closure*)\<close> (node.cpp 1199-1212), the leader's append.
  Every caller allocates \<^verbatim>\<open>entry->peers\<close> before it appends a configuration entry.
\<close>

definition append :: "NodeImpl \<Rightarrow> LogEntry \<Rightarrow> Closure \<Rightarrow> NodeImpl" where
  "append node entry done =
     (let is_conf = (le_type entry = ENTRY_TYPE_ADD_PEER \<or> le_type entry = ENTRY_TYPE_REMOVE_PEER);
          old_peers = (if is_conf then peer_vector (snd (conf node)) else []);
          cmt = (if \<not> is_conf
                 then append_pending_application (commit_manager node) (snd (conf node)) done
                 else append_pending_application (commit_manager node)
                        (Configuration_of (case le_peers entry of None \<Rightarrow> [] | Some ps \<Rightarrow> ps)) done);
          lm = log_append_entry (log_manager node) entry;
          changed = check_and_set_configuration (config_manager node) lm (conf node)
      in node\<lparr>commit_manager := cmt,
              log_manager := lm,
              conf := snd changed,
              conf_ctx := (if fst changed then old_peers else conf_ctx node)\<rparr>)"

text \<open>
  \<^verbatim>\<open>NodeImpl::append(const std::vector<LogEntry*>&)\<close> (node.cpp 1214-1229), the follower's
  append of a batch.
\<close>

definition append_batch :: "NodeImpl \<Rightarrow> LogEntry list \<Rightarrow> int \<times> NodeImpl" where
  "append_batch node entries =
     (if length entries = 0 then (0, node)
      else (let r = log_append_entries (log_manager node) entries
            in if fst r = 0
               then (0, node\<lparr>log_manager := snd r,
                             conf := snd (check_and_set_configuration
                                            (config_manager node) (snd r) (conf node))\<rparr>)
               else (fst r, node\<lparr>log_manager := snd r\<rparr>)))"

subsection \<open>Configuration changes\<close>

text \<open>
  \<^verbatim>\<open>NodeImpl::add_peer\<close> (node.cpp 574-630). \<open>add_replicator_ret\<close> and \<open>wait_caughtup_ret\<close>
  are what the replicator group answers to \<^verbatim>\<open>add_replicator\<close> and \<^verbatim>\<open>wait_caughtup\<close>.
\<close>

definition add_peer ::
  "NodeImpl \<Rightarrow> PeerId list \<Rightarrow> PeerId \<Rightarrow> Closure \<Rightarrow> int \<Rightarrow> int \<Rightarrow> NodeImpl" where
  "add_peer node old_peers peer done add_replicator_ret wait_caughtup_ret =
     (if state node \<noteq> LEADER
      then node\<lparr>fsm_caller := fsm_caller node @ [on_cleared 0 done EPERM]\<rparr>
      else if conf_ctx node \<noteq> []
      then node\<lparr>fsm_caller := fsm_caller node @ [on_cleared 0 done EINVAL]\<rparr>
      else if \<not> conf_equal (snd (conf node)) old_peers
      then node\<lparr>fsm_caller := fsm_caller node @ [on_cleared 0 done EINVAL]\<rparr>
      else if conf_contain (snd (conf node)) peer
      then node\<lparr>fsm_caller := fsm_caller node @ [on_cleared 0 done EINVAL]\<rparr>
      else if 0 \<noteq> add_replicator_ret
      then node\<lparr>fsm_caller := fsm_caller node @ [on_cleared 0 done EINVAL]\<rparr>
      else (let node1 = node\<lparr>replicator_group := insert peer (replicator_group node)\<rparr>
            in if 0 \<noteq> wait_caughtup_ret
               then node1\<lparr>fsm_caller := fsm_caller node1 @ [on_cleared 0 done EINVAL]\<rparr>
               else node1))"

text \<open>\<^verbatim>\<open>NodeImpl::remove_peer\<close> (node.cpp 632-677).\<close>

definition remove_peer :: "NodeImpl \<Rightarrow> PeerId list \<Rightarrow> PeerId \<Rightarrow> Closure \<Rightarrow> NodeImpl" where
  "remove_peer node old_peers peer done =
     (if state node \<noteq> LEADER
      then node\<lparr>fsm_caller := fsm_caller node @ [on_cleared 0 done EPERM]\<rparr>
      else if conf_ctx node \<noteq> []
      then node\<lparr>fsm_caller := fsm_caller node @ [on_cleared 0 done EAGAIN]\<rparr>
      else if \<not> conf_equal (snd (conf node)) old_peers
      then node\<lparr>fsm_caller := fsm_caller node @ [on_cleared 0 done EINVAL]\<rparr>
      else if \<not> conf_contain (snd (conf node)) peer
      then node\<lparr>fsm_caller := fsm_caller node @ [on_cleared 0 done EINVAL]\<rparr>
      else (let new_conf = snd (conf node) - {peer};
                entry = new_LogEntry\<lparr>le_term := current_term node,
                                     le_type := ENTRY_TYPE_REMOVE_PEER,
                                     le_peers := Some (peer_vector new_conf)\<rparr>
            in append node entry done))"

text \<open>
  \<^verbatim>\<open>NodeImpl::on_configuration_change_done\<close> (node.cpp 437-467), called when a
  configuration entry is applied.
\<close>

definition on_configuration_change_done ::
  "NodeImpl \<Rightarrow> EntryType \<Rightarrow> PeerId list \<Rightarrow> NodeImpl" where
  "on_configuration_change_done node type new_peers =
     (let node1 =
        (if type = ENTRY_TYPE_ADD_PEER then node
         else if type = ENTRY_TYPE_REMOVE_PEER
         then (if \<not> conf_contain (snd (conf node)) (server_id node)
               then step_down (node\<lparr>conf := (fst (conf node), {})\<rparr>) (current_term node)
               else node\<lparr>replicator_group :=
                           replicator_group node - (set (conf_ctx node) - set new_peers)\<rparr>)
         else node)
      in node1\<lparr>conf_ctx := []\<rparr>)"

subsection \<open>Snapshots\<close>

text \<open>
  \<^verbatim>\<open>NodeImpl::on_snapshot_load_done\<close> (node.cpp 83-121). The call through
  \<^verbatim>\<open>_commit_manager\<close> at line 117 is the last step that can fail.
\<close>

definition on_snapshot_load_done :: "NodeImpl \<Rightarrow> error + NodeImpl" where
  "on_snapshot_load_done node =
     (case loading_snapshot_meta node of
        None \<Rightarrow> Inl CHECK_failed
      | Some meta \<Rightarrow>
          (let snap_index = last_included_index meta;
               snap_term = last_included_term meta;
               lm = log_manager node;
               lm1 = (if last_log_index lm < snap_index \<or>
                         (first_log_index lm \<le> snap_index \<and> get_term lm snap_index \<noteq> snap_term)
                      then truncate_suffix (truncate_prefix lm (add64 snap_index 1)) snap_index
                      else lm);
               lm2 = (if first_log_index lm1 \<le> snap_index
                      then truncate_prefix lm1 (add64 snap_index 1) else lm1);
               cm = set_snapshot (config_manager node) (last_included_index meta)
                      (last_configuration_of meta)
           in if \<not> commit_manager_created node then Inl NULL_dereference
              else Inr (node\<lparr>last_snapshot_index := snap_index,
                             last_snapshot_term := snap_term,
                             log_manager := lm2,
                             config_manager := cm,
                             conf := snd (check_and_set_configuration cm lm2 (conf node)),
                             commit_manager :=
                               reset_pending_index (commit_manager node)
                                 (add64 (last_included_index meta) 1),
                             loading_snapshot_meta := None\<rparr>)))"

text \<open>\<^verbatim>\<open>NodeImpl::on_snapshot_save_done\<close> (node.cpp 123-168).\<close>

definition on_snapshot_save_done ::
  "NodeImpl \<Rightarrow> int \<Rightarrow> SnapshotWriter \<Rightarrow> error + (int \<times> NodeImpl \<times> SnapshotWriter)" where
  "on_snapshot_save_done node last_included writer =
     (if last_included \<le> last_snapshot_index node
      then Inr (ESTALE, node\<lparr>snapshot_saving := False\<rparr>,
                writer_set_error writer ESTALE
                  ''snapshot is staled, maybe InstallSnapshot when snapshot'')
      else if \<not> last_included \<ge> first_log_index (log_manager node) then Inl CHECK_failed
      else if \<not> last_included \<le> last_log_index (log_manager node) then Inl CHECK_failed
      else (let lm = log_manager node;
                snap_term = get_term lm last_included;
                pair = get_configuration (config_manager node) lm last_included;
                cm = (if fst pair \<noteq> 0
                      then set_snapshot (config_manager node) (fst pair) (snd pair)
                      else config_manager node);
                lm1 = (if first_log_index lm \<le> last_included
                       then truncate_prefix lm (add64 last_included 1) else lm)
            in Inr (save_meta_result writer,
                    node\<lparr>last_snapshot_index := last_included,
                         last_snapshot_term := snap_term,
                         config_manager := cm,
                         log_manager := lm1,
                         conf := snd (check_and_set_configuration cm lm1 (conf node)),
                         snapshot_saving := False\<rparr>,
                    writer)))"

subsection \<open>RPC handlers\<close>

text \<open>
  A peer string of a request is represented by what \<^verbatim>\<open>PeerId::parse\<close> (raft/raft.h, not
  part of src) makes of it: \<open>None\<close> when \<^verbatim>\<open>parse\<close> fails, the peer otherwise.
\<close>

record RequestVoteRequest =
  rv_server_id :: "PeerId option"
  rv_term :: int
  rv_last_log_term :: int
  rv_last_log_index :: int

record RequestVoteResponse =
  rvr_term :: int
  rvr_granted :: bool

text \<open>\<^verbatim>\<open>NodeImpl::handle_request_vote_request\<close> (node.cpp 1231-1291).\<close>

definition log_is_ok :: "NodeImpl \<Rightarrow> RequestVoteRequest \<Rightarrow> bool" where
  "log_is_ok node request =
     (let last_log_index = last_log_index (log_manager node);
          last_log_term = last_log_term node
      in rv_last_log_term request > last_log_term \<or>
         (rv_last_log_term request = last_log_term \<and>
          rv_last_log_index request \<ge> last_log_index))"

definition handle_request_vote_request ::
  "NodeImpl \<Rightarrow> RequestVoteRequest \<Rightarrow> RequestVoteResponse
     \<Rightarrow> int \<times> NodeImpl \<times> RequestVoteResponse" where
  "handle_request_vote_request node request response =
     (let log_ok = log_is_ok node request
      in case rv_server_id request of
           None \<Rightarrow> (EINVAL, node, response)
         | Some candidate_id \<Rightarrow>
             (let node' =
                (if \<not> is_empty (leader_id node) then node
                 else if rv_term request \<ge> current_term node
                 then (let node1 = (if rv_term request > current_term node
                                    then step_down node (rv_term request) else node)
                       in if log_ok \<and> is_empty (voted_id node1)
                          then node1\<lparr>voted_id := candidate_id,
                                     stable_storage :=
                                       set_votedfor (stable_storage node1) candidate_id\<rparr>
                          else node1)
                 else node)
              in (0, node',
                  response\<lparr>rvr_term := current_term node',
                           rvr_granted := (rv_term request = current_term node' \<and>
                                           voted_id node' = candidate_id)\<rparr>)))"

record EntryMeta =
  em_term :: int
  em_type :: EntryType
  em_peers :: "PeerId list"
  em_data_len :: "nat option"

record AppendEntriesRequest =
  ae_server_id :: "PeerId option"
  ae_term :: int
  ae_prev_log_index :: int
  ae_prev_log_term :: int
  ae_entries :: "EntryMeta list"
  ae_committed_index :: int

record AppendEntriesResponse =
  aer_term :: int
  aer_success :: bool
  aer_last_log_index :: int

text \<open>
  The \<^verbatim>\<open>for\<close> loop of \<^verbatim>\<open>handle_append_entries_request\<close> (node.cpp 1356-1407), one
  equation per iteration. The loop reads and writes \<^verbatim>\<open>_log_manager\<close>, \<^verbatim>\<open>_conf\<close>, the data
  buffer and the batch \<^verbatim>\<open>entries\<close>, which are its state here; \<open>index\<close> is the loop's
  \<^verbatim>\<open>index\<close> before \<^verbatim>\<open>index++\<close>, \<open>index1\<close> after it. \<^verbatim>\<open>data_buf.cutn(&data, len)\<close> moves the first \<open>len\<close>
  bytes of the buffer, or all of it when it is shorter.
\<close>

definition materialize :: "EntryMeta \<Rightarrow> bytes \<Rightarrow> LogEntry \<times> bytes" where
  "materialize entry data_buf =
     (let log_entry = new_LogEntry\<lparr>le_term := em_term entry,
                                   le_type := em_type entry,
                                   le_peers := (if length (em_peers entry) > 0
                                                then Some (em_peers entry) else None)\<rparr>
      in case em_data_len entry of
           None \<Rightarrow> (log_entry, data_buf)
         | Some len \<Rightarrow> (log_entry\<lparr>le_data := take len data_buf\<rparr>, drop len data_buf))"

definition entry_checks :: "EntryMeta \<Rightarrow> bool" where
  "entry_checks entry =
     (if length (em_peers entry) > 0
      then em_type entry = ENTRY_TYPE_ADD_PEER \<or> em_type entry = ENTRY_TYPE_REMOVE_PEER
      else em_type entry \<noteq> ENTRY_TYPE_ADD_PEER)"

fun walk_entries ::
  "ConfigurationManager \<Rightarrow> EntryMeta list \<Rightarrow> int \<Rightarrow> LogManager \<Rightarrow> ConfigurationPair
     \<Rightarrow> bytes \<Rightarrow> LogEntry list
     \<Rightarrow> error + (LogManager \<times> ConfigurationPair \<times> bytes \<times> LogEntry list)" where
  "walk_entries cm [] index lm cf data_buf entries = Inr (lm, cf, data_buf, entries)"
| "walk_entries cm (entry # rest) index lm cf data_buf entries =
     (let index1 = add64 index 1
      in if index1 < first_log_index lm
         then walk_entries cm rest index1 lm cf data_buf entries
         else if last_log_index lm \<ge> index1 \<and> get_term lm index1 = em_term entry
         then walk_entries cm rest index1 lm cf data_buf entries
         else (let lm1 = (if last_log_index lm \<ge> index1
                          then truncate_suffix lm (add64 index1 (- 1)) else lm);
                   cf1 = (if last_log_index lm \<ge> index1
                          then snd (check_and_set_configuration cm lm1 cf) else cf)
               in if em_type entry \<noteq> ENTRY_TYPE_UNKNOWN
                  then (if entry_checks entry
                        then walk_entries cm rest index1 lm1 cf1
                               (snd (materialize entry data_buf))
                               (entries @ [fst (materialize entry data_buf)])
                        else Inl CHECK_failed)
                  else walk_entries cm rest index1 lm1 cf1 data_buf entries))"

text \<open>\<^verbatim>\<open>NodeImpl::handle_append_entries_request\<close> (node.cpp 1293-1437).\<close>

definition reply_append_entries ::
  "NodeImpl \<Rightarrow> bool \<Rightarrow> AppendEntriesRequest \<Rightarrow> AppendEntriesResponse \<Rightarrow> int
     \<Rightarrow> int \<times> NodeImpl \<times> AppendEntriesResponse" where
  "reply_append_entries node success request response now =
     (let response' = response\<lparr>aer_term := current_term node,
                               aer_success := success,
                               aer_last_log_index := last_log_index (log_manager node)\<rparr>
      in if success
         then (0, node\<lparr>commit_manager :=
                         set_last_committed_index (commit_manager node)
                           (ae_committed_index request),
                       last_leader_timestamp := now\<rparr>, response')
         else (0, node, response'))"

definition handle_append_entries_request ::
  "NodeImpl \<Rightarrow> bytes \<Rightarrow> AppendEntriesRequest \<Rightarrow> AppendEntriesResponse \<Rightarrow> int
     \<Rightarrow> error + (int \<times> NodeImpl \<times> AppendEntriesResponse)" where
  "handle_append_entries_request node data_buf request response now =
     (case ae_server_id request of
        None \<Rightarrow> Inr (EINVAL, node, response)
      | Some server \<Rightarrow>
          if ae_term request < current_term node
          then Inr (reply_append_entries node False request response now)
          else (let node1 = (if ae_term request > current_term node \<or> state node \<noteq> FOLLOWER
                             then step_down node (ae_term request) else node);
                    node2 = (if is_empty (leader_id node1)
                             then node1\<lparr>leader_id := server\<rparr> else node1)
                in if loading_snapshot_meta node2 \<noteq> None then Inl CHECK_failed
                   else if ae_prev_log_index request > last_log_index (log_manager node2)
                   then Inr (reply_append_entries node2 False request response now)
                   else if ae_prev_log_index request \<ge> first_log_index (log_manager node2) \<and>
                           get_term (log_manager node2) (ae_prev_log_index request)
                             \<noteq> ae_prev_log_term request
                   then Inr (reply_append_entries node2 False request response now)
                   else (case walk_entries (config_manager node2) (ae_entries request)
                                (ae_prev_log_index request) (log_manager node2) (conf node2)
                                data_buf [] of
                           Inl e \<Rightarrow> Inl e
                         | Inr (lm, cf, buf, entries) \<Rightarrow>
                             Inr (reply_append_entries
                                    (snd (append_batch (node2\<lparr>log_manager := lm, conf := cf\<rparr>)
                                            entries))
                                    True request response now))))"

record InstallSnapshotRequest =
  is_server_id :: "PeerId option"
  is_term :: int
  is_last_included_log_index :: int
  is_last_included_log_term :: int
  is_peers :: "PeerId option list"
  is_uri :: string

record InstallSnapshotResponse =
  isr_term :: int
  isr_success :: bool

text \<open>
  \<^verbatim>\<open>NodeImpl::handle_install_snapshot_request\<close> (node.cpp 1474-1598). \<open>writer\<close> is what
  \<^verbatim>\<open>_snapshot_storage->create\<close> returns (\<open>None\<close> for \<^verbatim>\<open>NULL\<close>). The result is the return
  code, the node, the response and whether \<^verbatim>\<open>done->Run()\<close> was called by the handler.
\<close>

definition fetch_snapshot :: "SnapshotWriter option \<Rightarrow> int" where
  "fetch_snapshot writer =
     (case writer of
        None \<Rightarrow> EINVAL
      | Some w \<Rightarrow> if 0 \<noteq> copy_result w then copy_result w else save_meta_result w)"

definition handle_install_snapshot_request ::
  "NodeImpl \<Rightarrow> InstallSnapshotRequest \<Rightarrow> InstallSnapshotResponse \<Rightarrow> SnapshotWriter option
     \<Rightarrow> error + (int \<times> NodeImpl \<times> InstallSnapshotResponse \<times> bool)" where
  "handle_install_snapshot_request node request response writer =
     (case is_server_id request of
        None \<Rightarrow> Inr (EINVAL, node, response, False)
      | Some server \<Rightarrow>
          (let response1 = response\<lparr>isr_success := False, isr_term := current_term node\<rparr>
           in if loading_snapshot_meta node \<noteq> None then Inr (EAGAIN, node, response1, False)
              else if is_term request < current_term node then Inr (0, node, response1, True)
              else (let stepping = (is_term request > current_term node \<or> state node \<noteq> FOLLOWER);
                        response2 = (if stepping
                                     then response1\<lparr>isr_term := current_term node\<rparr>
                                     else response1);
                        node1 = (if stepping then step_down node (current_term node) else node);
                        node2 = (if is_empty (leader_id node1)
                                 then node1\<lparr>leader_id := server\<rparr> else node1)
                    in if is_last_included_log_index request = last_snapshot_index node2 \<and>
                          is_last_included_log_term request = last_snapshot_term node2
                       then Inr (0, node2, response2\<lparr>isr_success := True\<rparr>, True)
                       else if \<not> is_last_included_log_index request > last_snapshot_index node2
                       then Inl CHECK_failed
                       else if \<not> is_last_included_log_index request
                                   > last_log_index (log_manager node2)
                       then Inl CHECK_failed
                       else if None \<in> set (is_peers request)
                       then Inr (EINVAL, node2, response2, False)
                       else (let meta = \<lparr>last_included_index = is_last_included_log_index request,
                                         last_included_term = is_last_included_log_term request,
                                         last_configuration_of =
                                           set (map the (is_peers request))\<rparr>;
                                 node3 = node2\<lparr>loading_snapshot_meta := Some meta\<rparr>
                             in if \<not> snapshot_storage node3 then Inl CHECK_failed
                                else if 0 \<noteq> fetch_snapshot writer
                                then Inr (fetch_snapshot writer, node3, response2, False)
                                else Inr (0, node3\<lparr>fsm_caller :=
                                                     fsm_caller node3 @ [on_snapshot_load]\<rparr>,
                                          response2, False)))))"

subsection \<open>Vocabulary of the statements about the append loop\<close>





subsection \<open>Concrete nodes and requests\<close>

text \<open>
  The states and messages at which the statements below are evaluated. \<open>node0\<close> is a
  node after \<^verbatim>\<open>init\<close> with empty storage and an empty configuration in the options.
\<close>

definition peerA :: PeerId where "peerA = (1, 8000, 0)"
definition peerB :: PeerId where "peerB = (2, 8000, 0)"
definition peerC :: PeerId where "peerC = (3, 8000, 0)"

definition node0 :: NodeImpl where
  "node0 =
     \<lparr>state = FOLLOWER, current_term = 0, voted_id = empty_peer, leader_id = empty_peer,
      server_id = peerA, conf = (0, {}), conf_ctx = [], last_leader_timestamp = 0,
      last_snapshot_index = 0, last_snapshot_term = 0, snapshot_saving = False,
      loading_snapshot_meta = None, snapshot_storage = True,
      log_manager = \<lparr>first_index = 1, logs = [], disk_thread = False, storage_replies = []\<rparr>,
      config_manager = \<lparr>snapshot_conf = (0, {})\<rparr>,
      commit_manager_created = True,
      commit_manager = \<lparr>last_committed_index = 0, pending_index = 0, pending_apps = []\<rparr>,
      stable_storage = \<lparr>stable_term = 0, stable_votedfor = empty_peer\<rparr>,
      fsm_caller = [], replicator_group = {}\<rparr>"

definition entry_at :: "int \<Rightarrow> int \<Rightarrow> LogEntry" where
  "entry_at i t =
     \<lparr>le_index = i, le_term = t, le_type = ENTRY_TYPE_DATA, le_peers = None, le_data = []\<rparr>"

definition vote_req :: RequestVoteRequest where
  "vote_req =
     \<lparr>rv_server_id = Some peerB, rv_term = 2, rv_last_log_term = 0, rv_last_log_index = 0\<rparr>"

definition stale_vote_req :: RequestVoteRequest where
  "stale_vote_req =
     \<lparr>rv_server_id = Some peerB, rv_term = 1, rv_last_log_term = 0, rv_last_log_index = 0\<rparr>"

definition vote_resp0 :: RequestVoteResponse where
  "vote_resp0 = \<lparr>rvr_term = 0, rvr_granted = False\<rparr>"

definition install_req :: InstallSnapshotRequest where
  "install_req =
     \<lparr>is_server_id = Some peerB, is_term = 3, is_last_included_log_index = 10,
      is_last_included_log_term = 2, is_peers = [Some peerA, Some peerB],
      is_uri = ''remote://snapshot''\<rparr>"

definition install_resp0 :: InstallSnapshotResponse where
  "install_resp0 = \<lparr>isr_term = 0, isr_success = False\<rparr>"

definition good_writer :: SnapshotWriter where
  "good_writer = \<lparr>writer_error = None, copy_result = 0, save_meta_result = 0\<rparr>"

text \<open>
  A follower of term 3 whose log holds the indices 1 to 3; \<open>install_req\<close> offers it a
  snapshot at index 10.
\<close>

definition behind :: NodeImpl where
  "behind =
     node0\<lparr>current_term := 3,
           log_manager := \<lparr>first_index = 1, logs = [entry_at 1 1, entry_at 2 1, entry_at 3 1],
                            disk_thread = False, storage_replies = []\<rparr>\<rparr>"

text \<open>The leader of the one-member group \<open>{A}\<close>, its first entry committed.\<close>

definition leaderA :: NodeImpl where
  "leaderA =
     node0\<lparr>state := LEADER, current_term := 4, voted_id := peerA, leader_id := peerA,
           conf := (1, {peerA}),
           log_manager :=
             \<lparr>first_index = 1,
              logs = [\<lparr>le_index = 1, le_term = 4, le_type = ENTRY_TYPE_ADD_PEER,
                       le_peers = Some [peerA], le_data = []\<rparr>],
              disk_thread = True, storage_replies = []\<rparr>,
           commit_manager := \<lparr>last_committed_index = 1, pending_index = 2, pending_apps = []\<rparr>,
           stable_storage := \<lparr>stable_term = 4, stable_votedfor = peerA\<rparr>\<rparr>"

text \<open>The leader \<open>A\<close> of the group \<open>{A, B}\<close> in term 4, its first entry committed.\<close>

definition leaderAB :: NodeImpl where
  "leaderAB =
     node0\<lparr>state := LEADER, current_term := 4, voted_id := peerA, leader_id := peerA,
           conf := (1, {peerA, peerB}),
           log_manager :=
             \<lparr>first_index = 1,
              logs = [\<lparr>le_index = 1, le_term = 4, le_type = ENTRY_TYPE_ADD_PEER,
                       le_peers = Some [peerA, peerB], le_data = []\<rparr>],
              disk_thread = True, storage_replies = []\<rparr>,
           commit_manager := \<lparr>last_committed_index = 1, pending_index = 2, pending_apps = []\<rparr>,
           stable_storage := \<lparr>stable_term = 4, stable_votedfor = peerA\<rparr>,
           replicator_group := {peerB}\<rparr>"

text \<open>A follower of the group \<open>{A, B, C}\<close> that has not voted and knows no leader.\<close>

definition follower3 :: NodeImpl where
  "follower3 = node0\<lparr>current_term := 1, conf := (1, {peerA, peerB, peerC})\<rparr>"

definition heartbeat2 :: AppendEntriesRequest where
  "heartbeat2 =
     \<lparr>ae_server_id = Some peerB, ae_term = 2, ae_prev_log_index = 0, ae_prev_log_term = 0,
      ae_entries = [], ae_committed_index = 0\<rparr>"

definition three :: NodeImpl where
  "three = node0\<lparr>current_term := 6, conf := (1, {peerA, peerB, peerC})\<rparr>"


definition heartbeat :: AppendEntriesRequest where
  "heartbeat =
     \<lparr>ae_server_id = Some peerB, ae_term = 1, ae_prev_log_index = 0, ae_prev_log_term = 0,
      ae_entries = [], ae_committed_index = 0\<rparr>"


definition append_resp0 :: AppendEntriesResponse where
  "append_resp0 = \<lparr>aer_term = 0, aer_success = False, aer_last_log_index = 0\<rparr>"

section \<open>Properties\<close>

subsection \<open>Arithmetic in range, and what a step-down and a reply leave alone\<close>

lemma add64_exact:
  "INT64_MIN \<le> a + b \<Longrightarrow> a + b \<le> INT64_MAX \<Longrightarrow> add64 a b = a + b"
  by (simp add: add64_def INT64_MIN_def INT64_MAX_def)

lemma step_down_fields [simp]:
  "state (step_down n t) = FOLLOWER"
  "current_term (step_down n t) = t"
  "voted_id (step_down n t) = empty_peer"
  "leader_id (step_down n t) = empty_peer"
  "conf_ctx (step_down n t) = []"
  "conf (step_down n t) = conf n"
  "last_leader_timestamp (step_down n t) = last_leader_timestamp n"
  "last_snapshot_index (step_down n t) = last_snapshot_index n"
  "last_snapshot_term (step_down n t) = last_snapshot_term n"
  "loading_snapshot_meta (step_down n t) = loading_snapshot_meta n"
  "config_manager (step_down n t) = config_manager n"
  "commit_manager_created (step_down n t) = commit_manager_created n"
  "snapshot_storage (step_down n t) = snapshot_storage n"
  "last_committed_index (commit_manager (step_down n t)) = last_committed_index (commit_manager n)"
  "first_index (log_manager (step_down n t)) = first_index (log_manager n)"
  "logs (log_manager (step_down n t)) = logs (log_manager n)"
  "storage_replies (log_manager (step_down n t)) = storage_replies (log_manager n)"
  by (simp_all add: step_down_def Let_def clear_pending_applications_def)

lemma reply_fields:
  assumes "reply_append_entries n b req resp now = (ret, n', r')"
  shows "ret = 0" "aer_term r' = current_term n'" "aer_success r' = b"
    "aer_last_log_index r' = last_log_index (log_manager n')"
    "current_term n' = current_term n" "log_manager n' = log_manager n"
    "\<not> b \<Longrightarrow> n' = n"
    "b \<Longrightarrow> last_leader_timestamp n' = now"
    "b \<Longrightarrow> last_committed_index (commit_manager n') =
            max (last_committed_index (commit_manager n)) (ae_committed_index req)"
  using assms
  by (auto simp add: reply_append_entries_def Let_def set_last_committed_index_def
      split: if_splits)

lemma append_batch_frame [simp]:
  "last_leader_timestamp (snd (append_batch n es)) = last_leader_timestamp n"
  "commit_manager (snd (append_batch n es)) = commit_manager n"
  "current_term (snd (append_batch n es)) = current_term n"
  "state (snd (append_batch n es)) = state n"
  "leader_id (snd (append_batch n es)) = leader_id n"
  "loading_snapshot_meta (snd (append_batch n es)) = loading_snapshot_meta n"
  "config_manager (snd (append_batch n es)) = config_manager n"
  by (simp_all add: append_batch_def Let_def)

subsection \<open>Term monotonicity\<close>

text \<open>
  C1. For every operation on a node, \<open>current_term\<close> after the operation is at least
  \<open>current_term\<close> before it; in particular \<open>set_peer\<close> with an empty configuration and
  empty \<open>old_peers\<close> never lowers \<open>current_term\<close>. The bootstrap branch of \<open>set_peer\<close> calls
  \<open>step_down(1)\<close> whatever the term is. The run below is scenario S5 of the spec followed
  by a bootstrap: the leader \<open>A\<close> of \<open>{A, B}\<close> in term 4 removes itself, the removal is
  applied (\<open>A\<close> clears its configuration and steps down in term 4), and \<open>set_peer([], [A])\<close>
  then returns 0 and leaves \<open>A\<close> in term 1.
\<close>

theorem set_peer_bootstrap_lowers_current_term:
  "(let removed = on_configuration_change_done (remove_peer leaderAB [peerA, peerB] peerA 7)
                    ENTRY_TYPE_REMOVE_PEER [peerB]
    in state removed = FOLLOWER \<and> current_term removed = 4 \<and>
       conf_empty (snd (conf removed)) \<and>
       fst (set_peer removed [] [peerA]) = 0 \<and>
       current_term (snd (set_peer removed [] [peerA])) = 1)"
  by (simp add: on_configuration_change_done_def remove_peer_def leaderAB_def node0_def
      conf_equal_def conf_contain_def Let_def append_def peer_vector_def new_LogEntry_def
      append_pending_application_def Configuration_of_def log_append_entry_def
      last_log_index_def check_and_set_configuration_def last_configuration_def
      is_conf_entry_def entry_conf_def set_peer_def conf_empty_def peerA_def peerB_def)

text \<open>
  The other paths of C1 do keep the term: \<open>set_peer\<close> outside the bootstrap branch (for a
  term below \<open>INT64_MAX\<close>), the AppendEntries handler, the InstallSnapshot handler and
  the RequestVote handler.
\<close>

lemma set_peer_term_monotone:
  "\<not> (conf_empty (snd (conf node)) \<and> old_peers = []) \<Longrightarrow>
   INT64_MIN \<le> current_term node \<Longrightarrow> current_term node < INT64_MAX
     \<Longrightarrow> current_term node \<le> current_term (snd (set_peer node old_peers new_peers))"
  by (auto simp add: set_peer_def Let_def add64_exact)

lemma append_entries_term_monotone:
  "handle_append_entries_request node data_buf request response now = Inr (ret, node', response')
     \<Longrightarrow> current_term node \<le> current_term node'"
  by (auto simp add: handle_append_entries_request_def Let_def reply_append_entries_def
      split: option.splits if_splits sum.splits)

lemma install_snapshot_term_unchanged:
  "handle_install_snapshot_request node request response writer = Inr (ret, node', response', d)
     \<Longrightarrow> current_term node' = current_term node"
  by (auto simp add: handle_install_snapshot_request_def Let_def
      split: option.splits if_splits)

lemma request_vote_term_monotone:
  "current_term node \<le> current_term (fst (snd (handle_request_vote_request node request response)))"
  by (auto simp add: handle_request_vote_request_def Let_def split: option.splits)

subsection \<open>InstallSnapshot\<close>

text \<open>
  C2. An InstallSnapshot request with \<open>request.term > current_term\<close>, or to a node that is
  not a follower, steps the node down and adopts the request's term: afterwards
  \<open>current_term = request.term\<close> and the response carries that term. The handler calls
  \<open>step_down(_current_term)\<close>, not \<open>step_down(request->term())\<close>: a follower of term 1
  that handles a request of term 3 stays in term 1 and answers with term 1.
\<close>

theorem install_snapshot_keeps_current_term:
  "state (node0\<lparr>current_term := 1\<rparr>) = FOLLOWER \<and>
   is_term install_req > current_term (node0\<lparr>current_term := 1\<rparr>) \<and>
   (case handle_install_snapshot_request (node0\<lparr>current_term := 1\<rparr>) install_req install_resp0
           (Some good_writer) of
      Inl e \<Rightarrow> False
    | Inr (ret, node', response', done_run) \<Rightarrow>
        ret = 0 \<and> current_term node' = 1 \<and> isr_term response' = 1)"
  by (simp add: handle_install_snapshot_request_def install_req_def install_resp0_def
      good_writer_def node0_def Let_def is_empty_def empty_peer_def peerA_def peerB_def
      step_down_def last_log_index_def fetch_snapshot_def set_term_and_votedfor_def)

text \<open>
  The AppendEntries handler, on the same condition, does adopt the request's term, and
  the InstallSnapshot handler never changes the term (\<open>install_snapshot_term_unchanged\<close>).
\<close>

lemma append_entries_adopts_term:
  assumes "handle_append_entries_request node data_buf request response now =
             Inr (ret, node', response')"
      and "ae_server_id request \<noteq> None" and "ae_term request \<ge> current_term node"
  shows "current_term node' = ae_term request \<and> aer_term response' = ae_term request"
  using assms
  by (auto simp add: handle_append_entries_request_def Let_def reply_append_entries_def
      split: option.splits if_splits sum.splits)

subsection \<open>RequestVote\<close>

text \<open>
  C3. A RequestVote request handled while \<open>leader_id\<close> is non-empty is rejected:
  \<open>granted = false\<close> whatever the request's term, the candidate's log or a recorded
  \<open>voted_for\<close>. The handler leaves the \<^verbatim>\<open>do\<close> block at once, but computes \<open>granted\<close>
  from \<open>voted_for\<close> all the same. In the run below a follower votes for \<open>B\<close> in term 2,
  takes \<open>B\<close> for its leader on \<open>B\<close>'s first heartbeat, and then handles \<open>B\<close>'s vote
  request of term 2 once more: \<open>leader_id\<close> is \<open>B\<close>, and the reply has \<open>granted = true\<close>.
\<close>

theorem request_vote_granted_while_leader_known:
  "(case handle_append_entries_request
           (fst (snd (handle_request_vote_request follower3 vote_req vote_resp0)))
           [] heartbeat2 append_resp0 10 of
      Inl e \<Rightarrow> False
    | Inr (ret, node', response') \<Rightarrow>
        leader_id node' = peerB \<and> \<not> is_empty (leader_id node') \<and>
        fst (handle_request_vote_request node' vote_req vote_resp0) = 0 \<and>
        rvr_granted (snd (snd (handle_request_vote_request node' vote_req vote_resp0))))"
  by (simp add: handle_request_vote_request_def handle_append_entries_request_def follower3_def
      vote_req_def vote_resp0_def heartbeat2_def append_resp0_def node0_def is_empty_def
      empty_peer_def peerB_def Let_def log_is_ok_def last_log_term_def last_log_index_def
      first_log_index_def reply_append_entries_def append_batch_def step_down_def
      set_votedfor_def set_term_and_votedfor_def)

text \<open>
  What the handler does with a known leader: it leaves the node as it is, and grants
  only a vote that is already recorded for this candidate in this term.
\<close>

lemma request_vote_while_leader_known:
  assumes "rv_server_id request = Some candidate_id" and "\<not> is_empty (leader_id node)"
  shows "handle_request_vote_request node request response =
           (0, node, response\<lparr>rvr_term := current_term node,
                              rvr_granted := (rv_term request = current_term node \<and>
                                              voted_id node = candidate_id)\<rparr>)"
  using assms by (simp add: handle_request_vote_request_def Let_def)

text \<open>
  C4, as amended. For a well-formed RequestVote request handled with an empty
  \<open>leader_id\<close>: a request with \<open>request.term < current_term\<close> leaves the node exactly as
  it is; otherwise, if \<open>request.term > current_term\<close> the node first steps down to
  \<open>request.term\<close>, which clears \<open>voted_for\<close>, and nothing else happens to the node but
  the vote: \<open>voted_for\<close> is set to the candidate, and persisted, exactly when \<open>log_is_ok\<close>
  holds and \<open>voted_for\<close> is then empty. In every case the response is \<open>current_term\<close>
  with \<open>granted = (request.term = current_term \<and> voted_for = candidate_id)\<close>.
\<close>

theorem request_vote_without_leader:
  assumes "rv_server_id request = Some candidate_id" and "is_empty (leader_id node)"
  shows "\<exists>node' response'.
     handle_request_vote_request node request response = (0, node', response') \<and>
     (rv_term request < current_term node \<longrightarrow> node' = node) \<and>
     (rv_term request \<ge> current_term node \<longrightarrow>
        node' =
          (let node1 = (if rv_term request > current_term node
                        then step_down node (rv_term request) else node)
           in if log_is_ok node request \<and> is_empty (voted_id node1)
              then node1\<lparr>voted_id := candidate_id,
                         stable_storage := set_votedfor (stable_storage node1) candidate_id\<rparr>
              else node1)) \<and>
     (rv_term request > current_term node \<longrightarrow>
        state node' = FOLLOWER \<and> current_term node' = rv_term request) \<and>
     (rv_term request \<le> current_term node \<longrightarrow> current_term node' = current_term node) \<and>
     voted_id node' =
       (let voted_for = (if rv_term request > current_term node then empty_peer
                         else voted_id node)
        in if rv_term request \<ge> current_term node \<and> log_is_ok node request \<and>
              is_empty voted_for
           then candidate_id else voted_for) \<and>
     rvr_term response' = current_term node' \<and>
     rvr_granted response' =
       (rv_term request = current_term node' \<and> voted_id node' = candidate_id)"
  using assms
  by (auto simp add: handle_request_vote_request_def Let_def is_empty_def)

theorem request_vote_without_leader_witness:
  "\<exists>node' response'.
     handle_request_vote_request node0 vote_req vote_resp0 = (0, node', response') \<and>
     current_term node' = 2 \<and> voted_id node' = peerB \<and> rvr_granted response'"
proof -
  have h1: "rv_server_id vote_req = Some peerB" by (simp add: vote_req_def)
  have h2: "is_empty (leader_id node0)" by (simp add: node0_def is_empty_def)
  have h3: "log_is_ok node0 vote_req"
    by (simp add: vote_req_def node0_def log_is_ok_def last_log_term_def last_log_index_def
        first_log_index_def Let_def)
  have h4: "current_term node0 = 0" "rv_term vote_req = 2"
    by (simp_all add: node0_def vote_req_def)
  from request_vote_without_leader [OF h1 h2, of vote_resp0] h3 h4 show ?thesis
    by (auto simp add: Let_def is_empty_def)
qed

text \<open>
  C4 as it was stated fails for a request of a smaller term: \<open>log_is_ok\<close> holds and
  \<open>voted_for\<close> is empty, yet the node of term 3 does not vote for the candidate of term 1.
\<close>

theorem request_vote_stale_term_no_vote:
  "is_empty (leader_id (node0\<lparr>current_term := 3\<rparr>)) \<and>
   log_is_ok (node0\<lparr>current_term := 3\<rparr>) stale_vote_req \<and>
   is_empty (voted_id (node0\<lparr>current_term := 3\<rparr>)) \<and>
   voted_id (fst (snd (handle_request_vote_request (node0\<lparr>current_term := 3\<rparr>)
                         stale_vote_req vote_resp0))) \<noteq> peerB"
  by (simp add: handle_request_vote_request_def stale_vote_req_def vote_resp0_def node0_def
      is_empty_def empty_peer_def peerB_def Let_def log_is_ok_def last_log_term_def
      last_log_index_def first_log_index_def)

subsection \<open>Snapshots\<close>

text \<open>
  When \<open>on_snapshot_load_done\<close> can complete. Inside \<^verbatim>\<open>init\<close> the commit manager does
  not exist yet, and the call ends in the \<^verbatim>\<open>NULL\<close> pointer. When the InstallSnapshot
  handler stores a meta, the meta lies beyond the snapshot and beyond the log
  (the two \<^verbatim>\<open>CHECK\<close>s at node.cpp 1534-1535), so the log does not start after it.
\<close>

lemma snapshot_load_done_inside_init:
  "loading_snapshot_meta node = Some meta \<Longrightarrow> \<not> commit_manager_created node
     \<Longrightarrow> on_snapshot_load_done node = Inl NULL_dereference"
  by (simp add: on_snapshot_load_done_def Let_def)

lemma install_snapshot_meta_beyond_log:
  assumes "handle_install_snapshot_request node request response writer =
             Inr (ret, node', response', d)"
      and "loading_snapshot_meta node = None" and "loading_snapshot_meta node' = Some meta"
  shows "last_included_index meta = is_last_included_log_index request \<and>
         last_snapshot_index node' < last_included_index meta \<and>
         last_log_index (log_manager node') < last_included_index meta \<and>
         first_log_index (log_manager node') \<le> last_included_index meta \<and>
         commit_manager_created node' = commit_manager_created node"
  using assms
  by (auto simp add: handle_install_snapshot_request_def Let_def first_log_index_def
      last_log_index_def split: option.splits if_splits)

text \<open>
  C5. After \<open>on_snapshot_load_done\<close> completes, \<open>last_snapshot_index\<close> and
  \<open>last_snapshot_term\<close> are the pending meta's values; if the log held no entry at
  \<open>last_snapshot_index\<close> with the term \<open>last_snapshot_term\<close> the entire log is discarded,
  otherwise only the entries up to \<open>last_snapshot_index\<close> are truncated; afterwards
  \<open>last_snapshot_index < first_log_index\<close>, \<open>get_term(last_snapshot_index)\<close> is
  \<open>last_snapshot_term\<close> whenever that index is in the log, and the commit manager's pending
  index is \<open>last_snapshot_index + 1\<close>.

  The hypotheses are those of a call that completes: a meta is pending, the commit
  manager exists, the meta's index is an \<^verbatim>\<open>int64_t\<close> below \<open>INT64_MAX\<close>, and the log does
  not start after the meta's index unless it is empty, as after an install.
\<close>

theorem snapshot_load_done_log:
  assumes "loading_snapshot_meta node = Some meta"
      and "commit_manager_created node"
      and "INT64_MIN \<le> last_included_index meta" and "last_included_index meta < INT64_MAX"
      and "first_log_index (log_manager node) \<le> last_included_index meta \<or>
           logs (log_manager node) = []"
  shows "\<exists>node'. on_snapshot_load_done node = Inr node' \<and>
     last_snapshot_index node' = last_included_index meta \<and>
     last_snapshot_term node' = last_included_term meta \<and>
     (\<not> (first_log_index (log_manager node) \<le> last_included_index meta \<and>
         last_included_index meta \<le> last_log_index (log_manager node) \<and>
         get_term (log_manager node) (last_included_index meta) = last_included_term meta)
        \<longrightarrow> logs (log_manager node') = []) \<and>
     (first_log_index (log_manager node) \<le> last_included_index meta \<and>
      last_included_index meta \<le> last_log_index (log_manager node) \<and>
      get_term (log_manager node) (last_included_index meta) = last_included_term meta
        \<longrightarrow> logs (log_manager node') =
              drop (nat (last_included_index meta + 1 - first_log_index (log_manager node)))
                (logs (log_manager node)) \<and>
            first_log_index (log_manager node') = last_included_index meta + 1) \<and>
     last_snapshot_index node' < first_log_index (log_manager node') \<and>
     (first_log_index (log_manager node') \<le> last_snapshot_index node' \<and>
      last_snapshot_index node' \<le> last_log_index (log_manager node')
        \<longrightarrow> get_term (log_manager node') (last_snapshot_index node') = last_snapshot_term node') \<and>
     pending_index (commit_manager node') = last_snapshot_index node' + 1 \<and>
     snapshot_conf (config_manager node') =
       (last_included_index meta, last_configuration_of meta) \<and>
     loading_snapshot_meta node' = None"
proof -
  from assms(3,4) have w: "add64 (last_included_index meta) 1 = last_included_index meta + 1"
    by (simp add: add64_exact)
  from assms(1,2,5) show ?thesis
    by (auto simp add: on_snapshot_load_done_def w Let_def first_log_index_def
        last_log_index_def truncate_prefix_def truncate_suffix_def reset_pending_index_def
        set_snapshot_def)
qed

text \<open>
  The witness is an install: the handler stores the meta of \<open>install_req\<close> on the
  follower \<open>behind\<close>, and \<open>on_snapshot_load_done\<close> then discards the log of three entries.
\<close>

theorem snapshot_load_done_log_witness:
  "\<exists>ret installing response' node'.
     handle_install_snapshot_request behind install_req install_resp0 (Some good_writer) =
       Inr (ret, installing, response', False) \<and>
     on_snapshot_load_done installing = Inr node' \<and>
     last_snapshot_index node' = 10 \<and> last_snapshot_term node' = 2 \<and>
     logs (log_manager node') = [] \<and>
     first_log_index (log_manager node') = 11 \<and>
     pending_index (commit_manager node') = 11"
proof -
  define meta where
    "meta = \<lparr>last_included_index = 10, last_included_term = 2,
             last_configuration_of = {peerA, peerB}\<rparr>"
  obtain ret installing response' where
    h: "handle_install_snapshot_request behind install_req install_resp0 (Some good_writer) =
          Inr (ret, installing, response', False)"
    and m: "loading_snapshot_meta installing = Some meta"
    and c: "commit_manager_created installing"
    and l: "first_index (log_manager installing) = 1"
       "logs (log_manager installing) = [entry_at 1 1, entry_at 2 1, entry_at 3 1]"
    by (simp add: handle_install_snapshot_request_def behind_def install_req_def
        install_resp0_def good_writer_def node0_def Let_def is_empty_def empty_peer_def
        peerB_def last_log_index_def fetch_snapshot_def meta_def insert_commute)
  have b: "INT64_MIN \<le> last_included_index meta" "last_included_index meta < INT64_MAX"
    by (simp_all add: meta_def INT64_MIN_def INT64_MAX_def)
  have f: "first_log_index (log_manager installing) \<le> last_included_index meta \<or>
           logs (log_manager installing) = []"
    by (simp add: first_log_index_def l meta_def)
  from snapshot_load_done_log [OF m c b f] obtain node' where
    r: "on_snapshot_load_done installing = Inr node'" and
    i: "last_snapshot_index node' = 10" "last_snapshot_term node' = 2" and
    g: "logs (log_manager node') = []" and
    k: "last_snapshot_index node' < first_log_index (log_manager node')" and
    p: "pending_index (commit_manager node') = 11"
    by (auto simp add: meta_def first_log_index_def last_log_index_def get_term_def l)
  from r have "first_log_index (log_manager node') = 11"
    by (auto simp add: on_snapshot_load_done_def m c l add64_def INT64_MIN_def Let_def
        first_log_index_def last_log_index_def get_term_def truncate_prefix_def
        truncate_suffix_def meta_def)
  with h r i g p show ?thesis by simp
qed

text \<open>
  C6. A call of \<open>on_snapshot_save_done\<close> with \<open>last_included_index \<le> last_snapshot_index\<close>
  returns \<open>ESTALE\<close> and records the error on the writer, leaves \<open>last_snapshot_index\<close>,
  \<open>last_snapshot_term\<close> and the log as they are, and clears \<open>snapshot_saving\<close>;
  \<open>snapshot_saving\<close> is cleared by every call that returns, stale or not.
\<close>

theorem snapshot_save_done_stale:
  "(last_included \<le> last_snapshot_index node \<longrightarrow>
      (\<exists>node' writer'.
         on_snapshot_save_done node last_included writer = Inr (ESTALE, node', writer') \<and>
         (\<exists>text. writer_error writer' = Some (ESTALE, text)) \<and>
         last_snapshot_index node' = last_snapshot_index node \<and>
         last_snapshot_term node' = last_snapshot_term node \<and>
         log_manager node' = log_manager node \<and>
         \<not> snapshot_saving node')) \<and>
   (\<forall>ret node' writer'.
      on_snapshot_save_done node last_included writer = Inr (ret, node', writer')
        \<longrightarrow> \<not> snapshot_saving node')"
  by (auto simp add: on_snapshot_save_done_def Let_def writer_set_error_def split: if_splits)

text \<open>
  The witness is scenario S6 of the spec: a save that began at index 100 completes after
  a snapshot at index 200 was installed.
\<close>

theorem snapshot_save_done_stale_witness:
  "\<exists>node' writer'.
     on_snapshot_save_done (node0\<lparr>last_snapshot_index := 200, snapshot_saving := True\<rparr>)
       100 good_writer = Inr (ESTALE, node', writer') \<and>
     last_snapshot_index node' = 200 \<and> \<not> snapshot_saving node'"
proof -
  have "(100::int) \<le> last_snapshot_index (node0\<lparr>last_snapshot_index := 200, snapshot_saving := True\<rparr>)"
    by simp
  with snapshot_save_done_stale
         [of 100 "node0\<lparr>last_snapshot_index := 200, snapshot_saving := True\<rparr>" good_writer]
  show ?thesis by auto
qed

subsection \<open>Configuration changes\<close>

text \<open>
  C7. \<open>set_peer\<close> on a node with a non-empty configuration rejects with a non-zero
  error whenever \<open>new_peers.size() \<ge> old_peers.size() / 2 + 1\<close>, or \<open>new_peers\<close> is not
  contained in \<open>old_peers\<close>, or \<open>old_peers\<close> differs from the current configuration; when it
  accepts, the node steps down to \<open>current_term + 1\<close> and the configuration is exactly
  \<open>new_peers\<close>. The new term is the 64-bit sum, which is \<open>current_term + 1\<close> for every
  \<^verbatim>\<open>int64_t\<close> term below \<open>INT64_MAX\<close>.
\<close>

theorem set_peer_override:
  assumes "\<not> conf_empty (snd (conf node))"
  shows "(length new_peers \<ge> length old_peers div 2 + 1 \<or>
          \<not> set new_peers \<subseteq> set old_peers \<or>
          \<not> conf_equal (snd (conf node)) old_peers
            \<longrightarrow> fst (set_peer node old_peers new_peers) \<noteq> 0 \<and>
                snd (set_peer node old_peers new_peers) = node) \<and>
         (fst (set_peer node old_peers new_peers) = 0
            \<longrightarrow> snd (set_peer node old_peers new_peers) =
                  (step_down node (add64 (current_term node) 1))
                    \<lparr>conf := (fst (conf node), set new_peers)\<rparr> \<and>
                (INT64_MIN \<le> current_term node \<and> current_term node < INT64_MAX \<longrightarrow>
                   current_term (snd (set_peer node old_peers new_peers)) =
                     current_term node + 1) \<and>
                state (snd (set_peer node old_peers new_peers)) = FOLLOWER \<and>
                snd (conf (snd (set_peer node old_peers new_peers))) = set new_peers)"
  using assms
  by (auto simp add: set_peer_def Let_def conf_equal_def conf_contain_all_def
      Configuration_of_def add64_exact)

theorem set_peer_override_witness:
  "fst (set_peer three [peerA, peerB, peerC] [peerA, peerB]) \<noteq> 0 \<and>
   fst (set_peer three [peerA, peerB, peerC] [peerA]) = 0 \<and>
   current_term (snd (set_peer three [peerA, peerB, peerC] [peerA])) = 7 \<and>
   snd (conf (snd (set_peer three [peerA, peerB, peerC] [peerA]))) = {peerA}"
proof -
  have h: "\<not> conf_empty (snd (conf three))"
    by (simp add: three_def conf_empty_def)
  have a: "fst (set_peer three [peerA, peerB, peerC] [peerA]) = 0"
    by (simp add: set_peer_def three_def node0_def conf_empty_def conf_equal_def
        conf_contain_all_def Let_def insert_commute)
  have t: "current_term three = 6" "INT64_MIN \<le> current_term three"
    "current_term three < INT64_MAX"
    by (simp_all add: three_def INT64_MIN_def INT64_MAX_def)
  from set_peer_override
         [OF h, where new_peers = "[peerA, peerB]" and old_peers = "[peerA, peerB, peerC]"]
       set_peer_override
         [OF h, where new_peers = "[peerA]" and old_peers = "[peerA, peerB, peerC]"] a t
  show ?thesis by (simp add: add64_def INT64_MIN_def)
qed

text \<open>
  C8. While \<open>conf_ctx\<close> is non-empty, every attempt to start another configuration change
  (\<open>add_peer\<close>, \<open>remove_peer\<close>, or \<open>set_peer\<close> on a leader) fails with an error and neither
  appends an entry nor changes the configuration. \<open>set_peer\<close> tests for the bootstrap
  case before it tests \<open>conf_ctx\<close>: the leader of \<open>{A}\<close> that has appended the removal of
  \<open>A\<close> has an empty configuration and \<open>conf_ctx = [A]\<close>, and \<open>set_peer([], [B])\<close> on it
  returns 0 and installs \<open>{B}\<close>.
\<close>

theorem set_peer_bootstrap_during_conf_change:
  "state leaderA = LEADER \<and> conf_ctx leaderA = [] \<and>
   state (remove_peer leaderA [peerA] peerA 7) = LEADER \<and>
   conf_ctx (remove_peer leaderA [peerA] peerA 7) = [peerA] \<and>
   snd (conf (remove_peer leaderA [peerA] peerA 7)) = {} \<and>
   fst (set_peer (remove_peer leaderA [peerA] peerA 7) [] [peerB]) = 0 \<and>
   snd (conf (snd (set_peer (remove_peer leaderA [peerA] peerA 7) [] [peerB]))) = {peerB}"
  by (simp add: remove_peer_def leaderA_def node0_def conf_equal_def conf_contain_def Let_def
      append_def peer_vector_def new_LogEntry_def append_pending_application_def
      Configuration_of_def log_append_entry_def last_log_index_def
      check_and_set_configuration_def last_configuration_def is_conf_entry_def entry_conf_def
      set_peer_def conf_empty_def)

text \<open>
  The other paths of C8 do refuse: \<open>add_peer\<close> and \<open>remove_peer\<close> report a non-zero code
  to \<open>done\<close> and change nothing else, and \<open>set_peer\<close> on a leader returns \<open>EINVAL\<close> unless
  it is in the bootstrap case.
\<close>

lemma add_peer_during_conf_change:
  "conf_ctx node \<noteq> [] \<Longrightarrow>
     add_peer node old_peers peer done r1 r2 =
       node\<lparr>fsm_caller := fsm_caller node @
                [on_cleared 0 done (if state node \<noteq> LEADER then EPERM else EINVAL)]\<rparr>"
  by (simp add: add_peer_def)

lemma remove_peer_during_conf_change:
  "conf_ctx node \<noteq> [] \<Longrightarrow>
     remove_peer node old_peers peer done =
       node\<lparr>fsm_caller := fsm_caller node @
                [on_cleared 0 done (if state node \<noteq> LEADER then EPERM else EAGAIN)]\<rparr>"
  by (simp add: remove_peer_def)

lemma set_peer_during_conf_change:
  "conf_ctx node \<noteq> [] \<Longrightarrow> state node = LEADER \<Longrightarrow>
   \<not> (conf_empty (snd (conf node)) \<and> old_peers = []) \<Longrightarrow>
     set_peer node old_peers new_peers = (EINVAL, node)"
  by (auto simp add: set_peer_def)

subsection \<open>AppendEntries\<close>

lemma handler_reply:
  assumes "handle_append_entries_request node data_buf request response now = Inr result"
      and "ae_server_id request = Some server"
  shows "\<exists>n b. result = reply_append_entries n b request response now \<and>
           last_leader_timestamp n = last_leader_timestamp node \<and>
           last_committed_index (commit_manager n) = last_committed_index (commit_manager node)"
  using assms
  by (auto simp add: handle_append_entries_request_def Let_def
         split: option.splits if_splits sum.splits)

text \<open>
  C10. For every AppendEntries request whose reply has \<open>success = false\<close>, the node's
  \<open>last_leader_timestamp\<close> and the commit manager's committed index are unchanged; a reply
  with \<open>success = true\<close> refreshes the timestamp and advances the committed index to the
  request's \<open>committed_index\<close> (it stays where it is when the request's is smaller); and
  every reply carries \<open>current_term\<close> and the node's \<open>last_log_index\<close>.
\<close>

theorem append_entries_reply_frame:
  assumes "handle_append_entries_request node data_buf request response now =
             Inr (ret, node', response')"
      and "ae_server_id request \<noteq> None"
  shows "ret = 0 \<and>
     aer_term response' = current_term node' \<and>
     aer_last_log_index response' = last_log_index (log_manager node') \<and>
     (\<not> aer_success response' \<longrightarrow>
        last_leader_timestamp node' = last_leader_timestamp node \<and>
        last_committed_index (commit_manager node') =
          last_committed_index (commit_manager node)) \<and>
     (aer_success response' \<longrightarrow>
        last_leader_timestamp node' = now \<and>
        last_committed_index (commit_manager node') =
          max (last_committed_index (commit_manager node)) (ae_committed_index request))"
proof -
  from assms(2) obtain server where "ae_server_id request = Some server" by auto
  from handler_reply [OF assms(1) this] obtain n b where
    r: "reply_append_entries n b request response now = (ret, node', response')" and
    t: "last_leader_timestamp n = last_leader_timestamp node" and
    c: "last_committed_index (commit_manager n) = last_committed_index (commit_manager node)"
    by auto
  note f = reply_fields [OF r]
  show ?thesis
  proof (cases b)
    case True
    with f t c show ?thesis by simp
  next
    case False
    with f t c show ?thesis by simp
  qed
qed


theorem append_entries_reply_frame_witness:
  "\<exists>ret node' response'.
     handle_append_entries_request node0 [] heartbeat append_resp0 10 =
       Inr (ret, node', response') \<and>
     ret = 0 \<and> aer_success response' \<and> aer_term response' = 1 \<and>
     aer_last_log_index response' = 0 \<and> last_leader_timestamp node' = 10"
proof -
  have s: "ae_server_id heartbeat \<noteq> None" by (simp add: heartbeat_def)
  obtain ret node' response' where
    h: "handle_append_entries_request node0 [] heartbeat append_resp0 10 =
          Inr (ret, node', response')"
    and v: "aer_success response'" "current_term node' = 1" "logs (log_manager node') = []"
       "first_index (log_manager node') = 1"
    by (simp add: handle_append_entries_request_def heartbeat_def node0_def append_resp0_def
        Let_def is_empty_def last_log_index_def first_log_index_def reply_append_entries_def
        append_batch_def)
  from append_entries_reply_frame [OF h s] v h show ?thesis
    by (simp add: last_log_index_def)
qed

subsection \<open>The append loop\<close>



lemma materialize_term [simp]: "le_term (fst (materialize e buf)) = em_term e"
  by (simp add: materialize_def Let_def new_LogEntry_def split: option.splits)


declare walk_entries.simps(2) [simp del]







lemma extend_fields [simp]:
  "first_log_index (lm\<lparr>logs := ys\<rparr>) = first_log_index lm"
  "last_log_index (lm\<lparr>logs := logs lm @ ys\<rparr>) = last_log_index lm + int (length ys)"
  by (simp_all add: first_log_index_def last_log_index_def)










lemma reply_node_fields [simp]:
  "current_term (fst (snd (reply_append_entries n b req resp now))) = current_term n"
  "state (fst (snd (reply_append_entries n b req resp now))) = state n"
  "loading_snapshot_meta (fst (snd (reply_append_entries n b req resp now))) = loading_snapshot_meta n"
  "log_manager (fst (snd (reply_append_entries n b req resp now))) = log_manager n"
  "config_manager (fst (snd (reply_append_entries n b req resp now))) = config_manager n"
  "conf (fst (snd (reply_append_entries n b req resp now))) = conf n"
  "aer_success (snd (snd (reply_append_entries n b req resp now))) = b"
  by (simp_all add: reply_append_entries_def Let_def)



end
